theory Spec2Isabelle
  imports Complex_Main
begin

section \<open>The OpenModelica result-file reader (class ModelicaMatReader of main.py)\<close>

text \<open>
  The reader of \<^verbatim>\<open>src/main.py\<close> keeps five fields: the path of the last file it was
  asked to load, the raw dictionary that \<^verbatim>\<open>scipy.io.loadmat\<close> returned, the decoded
  variable names, the table from names to sample series, and the time vector.

  Conventions of the embedding.
  \<^item> A Python \<^verbatim>\<open>str\<close> is a \<^typ>\<open>string\<close>; its characters are the 256 code points that an
    8-bit character matrix of a result file can hold, so \<^verbatim>\<open>str.lower\<close> and
    \<^verbatim>\<open>str.strip\<close> are written out for exactly that range.
  \<^item> A sample is a \<^typ>\<open>real\<close>: the doubles of the file are idealised (no rounding, no NaN).
  \<^item> A two-dimensional numpy array is the list of its rows.
  \<^item> An exception is a value of type \<open>exc\<close>; a function that can raise returns
    \<open>exc + 'a\<close>, and every \<^verbatim>\<open>try/except\<close> of the source is a case distinction.
  \<^item> The calls to \<^verbatim>\<open>print\<close> and \<^verbatim>\<open>time.time\<close> have no effect on any field or result
    and are left out.
\<close>

subsection \<open>Python string primitives\<close>

text \<open>\<^verbatim>\<open>s.startswith(p)\<close>\<close>

primrec starts_with :: "string \<Rightarrow> string \<Rightarrow> bool" where
  "starts_with [] s = True"
| "starts_with (c # cs) s = (case s of [] \<Rightarrow> False | d # ds \<Rightarrow> c = d \<and> starts_with cs ds)"

text \<open>\<^verbatim>\<open>kw in s\<close> on two strings: \<open>kw\<close> occurs in \<open>s\<close> as a contiguous substring.\<close>

fun str_in :: "string \<Rightarrow> string \<Rightarrow> bool" where
  "str_in kw [] = (kw = [])"
| "str_in kw (c # cs) = (starts_with kw (c # cs) \<or> str_in kw cs)"

text \<open>\<^verbatim>\<open>s.split(sep)\<close> for a one-character separator: one part more than there are separators.\<close>

fun split_on :: "char \<Rightarrow> string \<Rightarrow> string list" where
  "split_on sep [] = [[]]"
| "split_on sep (c # cs) =
     (if c = sep then [] # split_on sep cs
      else (case split_on sep cs of
              [] \<Rightarrow> [[c]]
            | p # ps \<Rightarrow> (c # p) # ps))"

text \<open>\<^verbatim>\<open>c.isspace()\<close> on the code points below 256.\<close>

definition is_space :: "char \<Rightarrow> bool" where
  "is_space c = ((of_char c :: nat) \<in> set [9, 10, 11, 12, 13, 28, 29, 30, 31, 32, 133, 160])"

text \<open>\<^verbatim>\<open>s.strip()\<close>\<close>

definition strip :: "string \<Rightarrow> string" where
  "strip s = rev (dropWhile is_space (rev (dropWhile is_space s)))"

text \<open>\<^verbatim>\<open>s.lower()\<close> on the code points below 256: the ASCII capitals and the Latin-1
  capitals (all of 192..222 but the multiplication sign 215) move up by 32.\<close>

definition lower_char :: "char \<Rightarrow> char" where
  "lower_char c =
     (let n = (of_char c :: nat)
      in if (65 \<le> n \<and> n \<le> 90) \<or> (192 \<le> n \<and> n \<le> 222 \<and> n \<noteq> 215)
         then char_of (n + 32) else c)"

definition lower :: "string \<Rightarrow> string" where
  "lower s = map lower_char s"

subsection \<open>The reader's state\<close>

type_synonym series = "real list"

type_synonym table = "string \<rightharpoonup> series"

datatype exc =
    KeyError string
  | IndexError
  | TypeError
  | LoadError string

text \<open>The dictionary of \<^verbatim>\<open>loadmat\<close>, at the four keys the reader looks up; \<open>None\<close> is a
  key the file does not have. \<^verbatim>\<open>name\<close> is the array of row strings, \<^verbatim>\<open>dataInfo\<close> an
  integer matrix, \<^verbatim>\<open>data_1\<close> and \<^verbatim>\<open>data_2\<close> the two value blocks.\<close>

record raw =
  name :: "string list option"
  dataInfo :: "int list list option"
  data_1 :: "series list option"
  data_2 :: "series list option"

record reader =
  file_path :: "string option"
  data :: "raw option"
  keys :: "string list"
  vals :: table
  time_vector :: series

text \<open>\<^verbatim>\<open>__init__\<close>\<close>

definition init :: reader where
  "init = \<lparr>file_path = None, data = None, keys = [], vals = Map.empty, time_vector = []\<rparr>"

subsection \<open>Expressions: \<^verbatim>\<open>_is_expression\<close>, \<^verbatim>\<open>_evaluate_expression\<close>, \<^verbatim>\<open>read_variables\<close>\<close>

definition operators :: "string list" where
  "operators = [''+'', ''-'', ''*'', ''/'', ''('', '')'']"

definition is_expression :: "string \<Rightarrow> bool" where
  "is_expression key = list_ex (\<lambda>op. str_in op key) operators"

text \<open>\<^verbatim>\<open>d.get(k, [])\<close>\<close>

definition get_or_empty :: "table \<Rightarrow> string \<Rightarrow> series" where
  "get_or_empty values k = (case values k of None \<Rightarrow> [] | Some v \<Rightarrow> v)"

text \<open>The body of the \<^verbatim>\<open>try\<close> raises nothing on a table of number lists (the two indexed
  reads stay below the common length), so the \<^verbatim>\<open>except\<close> branch adds no case.\<close>

definition evaluate_expression :: "reader \<Rightarrow> string \<Rightarrow> series" where
  "evaluate_expression self expression =
     (if str_in ''-'' expression \<and> str_in ''['' expression then
        (let parts = split_on CHR ''-'' expression in
         if length parts = 2 then
           (let var1 = strip (parts ! 0);
                var2 = strip (parts ! 1);
                v1 = get_or_empty (vals self) var1;
                v2 = get_or_empty (vals self) var2
            in if v1 \<noteq> [] \<and> v2 \<noteq> [] \<and> length v1 = length v2
               then map (\<lambda>i. v1 ! i - v2 ! i) [0..<length v1]
               else [])
         else [])
      else [])"

text \<open>The loop of \<^verbatim>\<open>read_variables\<close>, with the list \<^verbatim>\<open>rv\<close> it appends to.\<close>

fun read_loop :: "reader \<Rightarrow> string list \<Rightarrow> series list \<Rightarrow> series list" where
  "read_loop self [] rv = rv"
| "read_loop self (rk # rest) rv =
     (let v = (if is_expression rk then evaluate_expression self rk
               else get_or_empty (vals self) rk)
      in read_loop self rest (rv @ [v]))"

definition read_variables :: "reader \<Rightarrow> string list \<Rightarrow> series list \<times> series" where
  "read_variables self read_keys = (read_loop self read_keys [], time_vector self)"

subsection \<open>Indexing\<close>

text \<open>\<^verbatim>\<open>self.data[k]\<close>: a \<^verbatim>\<open>TypeError\<close> while \<^verbatim>\<open>self.data\<close> is still \<^verbatim>\<open>None\<close>, a
  \<^verbatim>\<open>KeyError\<close> when the file has no such key.\<close>

definition subscript :: "raw option \<Rightarrow> string \<Rightarrow> (raw \<Rightarrow> 'a option) \<Rightarrow> exc + 'a" where
  "subscript d k sel =
     (case d of
        None \<Rightarrow> Inl TypeError
      | Some rw \<Rightarrow> (case sel rw of None \<Rightarrow> Inl (KeyError k) | Some a \<Rightarrow> Inr a))"

text \<open>\<^verbatim>\<open>a[i]\<close> for an index that is never negative (a loop counter or a literal).\<close>

definition item_at :: "'a list \<Rightarrow> nat \<Rightarrow> exc + 'a" where
  "item_at xs i = (if i < length xs then Inr (xs ! i) else Inl IndexError)"

text \<open>\<^verbatim>\<open>block[i,]\<close> for an integer read from the file: as everywhere in numpy, a negative
  index counts from the end, and only an index outside \<open>-n \<le> i < n\<close> raises.\<close>

definition row_at :: "'a list \<Rightarrow> int \<Rightarrow> exc + 'a" where
  "row_at block i =
     (let n = int (length block);
          j = (if i < 0 then i + n else i)
      in if 0 \<le> j \<and> j < n then Inr (block ! nat j) else Inl IndexError)"

subsection \<open>\<^verbatim>\<open>_parse_keys_original\<close>\<close>

text \<open>The inner loop over the row indices \<open>i\<close>, for the column \<open>xx\<close>, with the string
  \<^verbatim>\<open>key\<close> built so far. Each of the three \<^verbatim>\<open>break\<close>s returns the string as it is.
  The indices come from \<^verbatim>\<open>range(len(name) - 1)\<close>, so \<open>nm ! i\<close> is always within the list.\<close>

fun key_loop :: "string list \<Rightarrow> nat \<Rightarrow> nat list \<Rightarrow> string \<Rightarrow> string" where
  "key_loop nm xx [] key = key"
| "key_loop nm xx (i # rest) key =
     (if length (nm ! i) < xx then key
      else (case item_at (nm ! i) xx of
              Inl e \<Rightarrow> key
            | Inr k \<Rightarrow> if k = CHR 0x00 then key
                       else key_loop nm xx rest (key @ [k])))"

text \<open>The outer loop over the columns \<open>xx\<close>: the finished string is appended to the list
  and the next column starts from the empty string.\<close>

fun keys_loop :: "string list \<Rightarrow> nat list \<Rightarrow> string \<Rightarrow> string list \<Rightarrow> string list" where
  "keys_loop nm [] key acc = acc"
| "keys_loop nm (xx # rest) key acc =
     (let key' = key_loop nm xx [0..<length nm - 1] key
      in keys_loop nm rest [] (acc @ [key']))"

text \<open>\<^verbatim>\<open>range(n - 1)\<close> is empty for \<open>n = 0\<close>, as \<open>[0..<n - 1]\<close> is on the naturals. The two
  reads outside any \<^verbatim>\<open>try\<close> are the key \<^verbatim>\<open>"name"\<close> and its row 0.\<close>

definition parse_keys_original :: "reader \<Rightarrow> exc + reader" where
  "parse_keys_original self =
     (case subscript (data self) ''name'' name of
        Inl e \<Rightarrow> Inl e
      | Inr nm \<Rightarrow>
          (case item_at nm 0 of
             Inl e \<Rightarrow> Inl e
           | Inr row0 \<Rightarrow>
               Inr (self\<lparr>keys := keys_loop nm [0..<length row0 - 1] [] []\<rparr>)))"

subsection \<open>\<^verbatim>\<open>_parse_values_original\<close> and \<^verbatim>\<open>_extract_time_original\<close>\<close>

text \<open>The body of the \<^verbatim>\<open>try\<close> for one index: \<open>Inl\<close> when it raises, \<open>Inr None\<close> when the
  selector is neither 1 nor 2, \<open>Inr (Some row)\<close> when a row is stored. The entries of
  \<^verbatim>\<open>dataInfo\<close> are integers of unbounded size here.\<close>

definition resolve_index :: "reader \<Rightarrow> nat \<Rightarrow> exc + series option" where
  "resolve_index self index =
     (case subscript (data self) ''dataInfo'' dataInfo of
        Inl e \<Rightarrow> Inl e
      | Inr di \<Rightarrow>
     (case item_at di 0 of
        Inl e \<Rightarrow> Inl e
      | Inr sel_row \<Rightarrow>
     (case item_at sel_row index of
        Inl e \<Rightarrow> Inl e
      | Inr data_index \<Rightarrow>
     (case item_at di 1 of
        Inl e \<Rightarrow> Inl e
      | Inr line_row \<Rightarrow>
     (case item_at line_row index of
        Inl e \<Rightarrow> Inl e
      | Inr line \<Rightarrow>
         (let line_num = line - 1 in
          if data_index = 1 \<or> data_index = 2 then
            (case (if data_index = 1 then subscript (data self) ''data_1'' data_1
                   else subscript (data self) ''data_2'' data_2) of
               Inl e \<Rightarrow> Inl e
             | Inr block \<Rightarrow>
                 (case row_at block line_num of
                    Inl e \<Rightarrow> Inl e
                  | Inr dataV \<Rightarrow> Inr (Some dataV)))
          else Inr None))))))"

text \<open>The loop over \<^verbatim>\<open>enumerate(self.keys)\<close> with the local dictionary \<^verbatim>\<open>values\<close>.\<close>

fun values_loop :: "reader \<Rightarrow> nat \<Rightarrow> string list \<Rightarrow> table \<Rightarrow> table" where
  "values_loop self index [] values = values"
| "values_loop self index (v # rest) values =
     (case resolve_index self index of
        Inl e \<Rightarrow> values_loop self (Suc index) rest values
      | Inr None \<Rightarrow> values_loop self (Suc index) rest values
      | Inr (Some dataV) \<Rightarrow> values_loop self (Suc index) rest (values(v \<mapsto> dataV)))"

definition parse_values_original :: "reader \<Rightarrow> reader" where
  "parse_values_original self = self\<lparr>vals := values_loop self 0 (keys self) Map.empty\<rparr>"


subsection \<open>\<^verbatim>\<open>load_data\<close>\<close>



subsection \<open>\<^verbatim>\<open>get_variable_categories\<close> and \<^verbatim>\<open>search_variables\<close>\<close>

datatype category = Electrical | Thermal | Mechanical | Control | Fault | Time | Other

text \<open>\<^verbatim>\<open>any(kw in s for kw in kws)\<close>\<close>

definition any_in :: "string list \<Rightarrow> string \<Rightarrow> bool" where
  "any_in kws s = list_ex (\<lambda>kw. str_in kw s) kws"

text \<open>The dictionary of seven lists is a function on the seven labels; the body of the
  loop appends the key to one of them.\<close>

definition classify_step :: "string \<Rightarrow> (category \<Rightarrow> string list) \<Rightarrow> (category \<Rightarrow> string list)" where
  "classify_step key categories =
     (let key_lower = lower key in
      if str_in ''time'' key_lower then
        categories(Time := categories Time @ [key])
      else if any_in [''voltage'', ''current'', ''power'', ''v['', ''i['', ''p['',
                      ''volt'', ''amp'', ''dc'', ''ac''] key_lower then
        categories(Electrical := categories Electrical @ [key])
      else if any_in [''temp'', ''heat'', ''cool'', ''thermal''] key_lower then
        categories(Thermal := categories Thermal @ [key])
      else if any_in [''speed'', ''torque'', ''rpm'', ''mechanical'', ''omega''] key_lower then
        categories(Mechanical := categories Mechanical @ [key])
      else if any_in [''control'', ''ref'', ''cmd'', ''set'', ''governor''] key_lower then
        categories(Control := categories Control @ [key])
      else if any_in [''fault'', ''error'', ''alarm'', ''trip''] key_lower then
        categories(Fault := categories Fault @ [key])
      else
        categories(Other := categories Other @ [key]))"

definition get_variable_categories :: "reader \<Rightarrow> category \<Rightarrow> string list" where
  "get_variable_categories self = fold classify_step (keys self) (\<lambda>c. [])"

definition search_variables :: "reader \<Rightarrow> string \<Rightarrow> string list" where
  "search_variables self pattern =
     (let p = lower pattern in filter (\<lambda>key. str_in p (lower key)) (keys self))"

text \<open>The rule table of the design, in its priority order, and the label of the first
  rule with a keyword in the lower-cased name (\<open>Other\<close> when there is none). This is the
  specification the loop above is compared with.\<close>

definition rule_table :: "(string list \<times> category) list" where
  "rule_table =
     [([''time''], Time),
      ([''voltage'', ''current'', ''power'', ''v['', ''i['', ''p['', ''volt'', ''amp'', ''dc'', ''ac''],
       Electrical),
      ([''temp'', ''heat'', ''cool'', ''thermal''], Thermal),
      ([''speed'', ''torque'', ''rpm'', ''mechanical'', ''omega''], Mechanical),
      ([''control'', ''ref'', ''cmd'', ''set'', ''governor''], Control),
      ([''fault'', ''error'', ''alarm'', ''trip''], Fault)]"

fun first_match :: "(string list \<times> category) list \<Rightarrow> string \<Rightarrow> category" where
  "first_match [] s = Other"
| "first_match ((kws, c) # rules) s = (if any_in kws s then c else first_match rules s)"

definition classify :: "string \<Rightarrow> category" where
  "classify key = first_match rule_table (lower key)"

subsection \<open>\<^verbatim>\<open>get_variable_stats\<close>\<close>

record stats =
  min_v :: real
  max_v :: real
  mean :: real
  std :: real
  size_v :: nat

text \<open>The numpy reductions, on a non-empty one-dimensional array (the only arrays
  \<^verbatim>\<open>get_variable_stats\<close> passes them): \<^verbatim>\<open>np.min\<close> and \<^verbatim>\<open>np.max\<close> run over the
  elements, \<^verbatim>\<open>np.mean\<close> is the sum over the count, and \<^verbatim>\<open>np.std\<close> with its default
  \<^verbatim>\<open>ddof=0\<close> is the square root of the mean of the squared absolute deviations.\<close>

definition np_min :: "series \<Rightarrow> real" where
  "np_min a = fold min (tl a) (hd a)"

definition np_max :: "series \<Rightarrow> real" where
  "np_max a = fold max (tl a) (hd a)"

definition np_mean :: "series \<Rightarrow> real" where
  "np_mean a = sum_list a / real (length a)"

definition np_std :: "series \<Rightarrow> real" where
  "np_std a = sqrt (np_mean (map (\<lambda>x. \<bar>x - np_mean a\<bar> ^ 2) a))"

definition get_variable_stats :: "reader \<Rightarrow> string \<Rightarrow> stats option" where
  "get_variable_stats self var_name =
     (case vals self var_name of
        None \<Rightarrow> None
      | Some a \<Rightarrow>
          if length a = 0 then None
          else Some \<lparr>min_v = np_min a, max_v = np_max a, mean = np_mean a,
                      std = np_std a, size_v = length a\<rparr>)"

subsection \<open>Reference notions and sample deserializers\<close>

text \<open>The name of column \<open>c\<close> in the words of the design: the characters of the column,
  read from the first of \<open>rows\<close> on, before the first null character and before the first
  row that is too short to have a column \<open>c\<close>.\<close>

definition column_name :: "string list \<Rightarrow> nat \<Rightarrow> string" where
  "column_name rows c =
     map (\<lambda>row. row ! c) (takeWhile (\<lambda>row. c < length row \<and> row ! c \<noteq> CHR 0x00) rows)"





section \<open>Properties\<close>

subsection \<open>Strings\<close>

lemma starts_with_single: "starts_with [c] s = (case s of [] \<Rightarrow> False | d # ds \<Rightarrow> c = d)"
  by (cases s) simp_all

lemma str_in_single: "str_in [c] s = (c \<in> set s)"
  by (induction s) (auto simp: starts_with_single)

lemma is_expression_iff:
  "is_expression key = (set key \<inter> set ''+-*/()'' \<noteq> {})"
  by (auto simp: is_expression_def operators_def str_in_single)

lemma split_on_nonempty: "split_on sep s \<noteq> []"
  by (induction s) (auto split: list.splits)

lemma length_split_on: "length (split_on sep s) = Suc (count_list s sep)"
  by (induction s) (auto split: list.splits simp: split_on_nonempty)

lemma split_on_two: "length (split_on sep s) = 2 \<longleftrightarrow> count_list s sep = 1"
  by (simp add: length_split_on)

lemma count_one_mem: "count_list s c = 1 \<Longrightarrow> c \<in> set s"
  by (metis count_list_0_iff zero_neq_one)

lemma index_diff_map2:
  "length xs = length ys \<Longrightarrow>
     map (\<lambda>i. xs ! i - ys ! i) [0..<length xs] = map2 (-) xs (ys :: real list)"
  by (rule nth_equalityI) simp_all

lemma read_loop_map:
  "read_loop self ks rv =
     rv @ map (\<lambda>rk. if is_expression rk then evaluate_expression self rk
                     else get_or_empty (vals self) rk) ks"
  by (induction ks arbitrary: rv) simp_all

lemma evaluate_expression_empty:
  "count_list key CHR ''-'' \<noteq> 1 \<or> CHR ''['' \<notin> set key \<Longrightarrow> evaluate_expression self key = []"
  by (auto simp: evaluate_expression_def str_in_single split_on_two Let_def)

text \<open>Claim C3, as the code has it. When the key splits at \<^verbatim>\<open>-\<close> into exactly two parts and
  both trimmed parts are names of the table, the result is the elementwise difference
  \<open>left[i] - right[i]\<close> if the key also contains the character \<^verbatim>\<open>[\<close> and the two series
  have the same length, and the empty series otherwise (so with mismatched lengths, and
  for a key such as \<^verbatim>\<open>a-b\<close> that has no \<^verbatim>\<open>[\<close>).\<close>

theorem evaluate_difference:
  assumes "split_on CHR ''-'' key = [l, r]"
    and "vals self (strip l) = Some xs"
    and "vals self (strip r) = Some ys"
  shows "evaluate_expression self key =
           (if CHR ''['' \<in> set key \<and> length xs = length ys then map2 (-) xs ys else [])"
proof -
  from assms(1) have "count_list key CHR ''-'' = 1"
    using split_on_two [of "CHR ''-''" key] by simp
  then have m: "str_in ''-'' key" by (simp add: str_in_single count_one_mem)
  show ?thesis
  proof (cases "CHR ''['' \<in> set key \<and> length xs = length ys")
    case True
    then show ?thesis
      using assms m index_diff_map2 [of xs ys]
      by (auto simp: evaluate_expression_def str_in_single get_or_empty_def Let_def)
  next
    case False
    then show ?thesis
      using assms m by (auto simp: evaluate_expression_def str_in_single get_or_empty_def Let_def)
  qed
qed

text \<open>The theorem of C3 at the table \<open>v[1] = [5,7,9]\<close>, \<open>v[2] = [1,2,3]\<close> and at the same
  table with \<open>v[2] = [1,2]\<close>.\<close>

theorem evaluate_difference_witness:
  "evaluate_expression (init\<lparr>vals := map_of [(''v[1]'', [5, 7, 9]), (''v[2]'', [1, 2, 3])]\<rparr>)
     ''v[1] - v[2]'' = [4, 5, 6]
   \<and> evaluate_expression (init\<lparr>vals := map_of [(''v[1]'', [5, 7, 9]), (''v[2]'', [1, 2])]\<rparr>)
     ''v[1] - v[2]'' = []"
proof -
  have s: "split_on CHR ''-'' ''v[1] - v[2]'' = [''v[1] '', '' v[2]'']" by simp
  have l: "strip ''v[1] '' = ''v[1]''" and r: "strip '' v[2]'' = ''v[2]''"
    by (simp_all add: strip_def is_space_def)
  have a: "vals (init\<lparr>vals := map_of [(''v[1]'', [5, 7, 9]), (''v[2]'', [1, 2, 3])]\<rparr>)
             (strip ''v[1] '') = Some [5, 7, 9]"
    and b: "vals (init\<lparr>vals := map_of [(''v[1]'', [5, 7, 9]), (''v[2]'', [1, 2, 3])]\<rparr>)
             (strip '' v[2]'') = Some [1, 2, 3]"
    by (simp_all add: l r)
  have a': "vals (init\<lparr>vals := map_of [(''v[1]'', [5, 7, 9]), (''v[2]'', [1, 2])]\<rparr>)
             (strip ''v[1] '') = Some [5, 7, 9]"
    and b': "vals (init\<lparr>vals := map_of [(''v[1]'', [5, 7, 9]), (''v[2]'', [1, 2])]\<rparr>)
             (strip '' v[2]'') = Some [1, 2]"
    by (simp_all add: l r)
  show ?thesis
    using evaluate_difference [OF s a b] evaluate_difference [OF s a' b'] by simp
qed

text \<open>Claim C3 as stated fails at its own example: \<^verbatim>\<open>a-b\<close> has no \<^verbatim>\<open>[\<close>, and the result on
  the table \<open>a = [5,7,9]\<close>, \<open>b = [1,2,3]\<close> is not \<open>[4,5,6]\<close>.\<close>

theorem evaluate_a_minus_b_counterexample:
  "evaluate_expression (init\<lparr>vals := map_of [(''a'', [5, 7, 9]), (''b'', [1, 2, 3])]\<rparr>) ''a-b''
     \<noteq> [4, 5, 6]"
  by (simp add: evaluate_expression_def)

text \<open>Claim C9, as the code has it. A key is an expression exactly when it contains one of
  the characters \<^verbatim>\<open>+ - * / ( )\<close>. Evaluation gives the empty series for every key that does
  not contain exactly one \<^verbatim>\<open>-\<close> or does not contain \<^verbatim>\<open>[\<close>: so for every key without a
  \<^verbatim>\<open>-\<close>, and for every subtraction with more than two operands. A key with exactly one
  \<^verbatim>\<open>-\<close> and a \<^verbatim>\<open>[\<close> is the difference of the two names around the \<^verbatim>\<open>-\<close>, whatever
  other operator characters those names contain (empty when a name is missing or the lengths
  differ). \<^verbatim>\<open>a+b\<close> is an expression and evaluates to the empty series on every table.\<close>

theorem expression_detected_or_empty:
  "is_expression key = (set key \<inter> set ''+-*/()'' \<noteq> {})
   \<and> (if count_list key CHR ''-'' = 1 \<and> CHR ''['' \<in> set key
      then evaluate_expression self key =
             (let parts = split_on CHR ''-'' key;
                  v1 = get_or_empty (vals self) (strip (parts ! 0));
                  v2 = get_or_empty (vals self) (strip (parts ! 1))
              in if length v1 = length v2 then map2 (-) v1 v2 else [])
      else evaluate_expression self key = [])
   \<and> is_expression ''a+b'' \<and> evaluate_expression self ''a+b'' = []"
proof -
  have 1: "is_expression key = (set key \<inter> set ''+-*/()'' \<noteq> {})"
    by (rule is_expression_iff)
  have 2: "evaluate_expression self key = []"
    if "\<not> (count_list key CHR ''-'' = 1 \<and> CHR ''['' \<in> set key)"
    using that evaluate_expression_empty [of key self] by blast
  have 3: "evaluate_expression self key =
             (let parts = split_on CHR ''-'' key;
                  v1 = get_or_empty (vals self) (strip (parts ! 0));
                  v2 = get_or_empty (vals self) (strip (parts ! 1))
              in if length v1 = length v2 then map2 (-) v1 v2 else [])"
    if "count_list key CHR ''-'' = 1 \<and> CHR ''['' \<in> set key"
  proof -
    have "length (split_on CHR ''-'' key) = 2" using that by (simp add: split_on_two)
    moreover have "str_in ''-'' key" using that by (simp add: str_in_single count_one_mem)
    moreover have "str_in ''['' key" using that by (simp add: str_in_single)
    ultimately show ?thesis
      using index_diff_map2
      by (auto simp: evaluate_expression_def Let_def)
  qed
  have 4: "is_expression ''a+b''" by (simp add: is_expression_iff)
  have 5: "evaluate_expression self ''a+b'' = []" by (simp add: evaluate_expression_def)
  show ?thesis using 1 2 3 4 5 by presburger
qed

text \<open>The theorem of C9 at a key with two \<^verbatim>\<open>-\<close> and at a two-operand difference.\<close>

theorem expression_detected_or_empty_witness:
  "is_expression ''a*(b-c)-d'' \<and> evaluate_expression init ''a*(b-c)-d'' = []
   \<and> evaluate_expression (init\<lparr>vals := map_of [(''x[1]'', [3]), (''y'', [1])]\<rparr>) ''x[1]-y'' = [2]"
  using expression_detected_or_empty [of "''a*(b-c)-d''" init]
    expression_detected_or_empty [of "''x[1]-y''" "init\<lparr>vals := map_of [(''x[1]'', [3]), (''y'', [1])]\<rparr>"]
  by (simp add: strip_def is_space_def get_or_empty_def)

text \<open>Claim C9 as stated fails: a key that contains \<^verbatim>\<open>(\<close> and \<^verbatim>\<open>)\<close> evaluates to a non-empty
  series when the names around its single \<^verbatim>\<open>-\<close> are in the table.\<close>

theorem operator_key_evaluates_counterexample:
  "CHR ''('' \<in> set ''der(x[1])-der(x[2])''
   \<and> evaluate_expression
       (init\<lparr>vals := map_of [(''der(x[1])'', [5, 7]), (''der(x[2])'', [1, 2])]\<rparr>)
       ''der(x[1])-der(x[2])'' = [4, 5]"
  by (simp add: evaluate_expression_def strip_def is_space_def get_or_empty_def)

text \<open>Claim C1, as the code has it. The result of \<^verbatim>\<open>read_variables\<close> has one entry per
  requested name, in the order of the request, next to the time vector; the function is
  total (no branch of it raises). The entry for a name that contains none of
  \<^verbatim>\<open>+ - * / ( )\<close> is its series in the table, or the empty series when the table does not
  have it; the entry for a name that contains one of them is the result of expression
  evaluation, and the table is not consulted for the name itself.\<close>

theorem read_variables_by_position:
  "read_variables self read_keys =
     (map (\<lambda>rk. if is_expression rk then evaluate_expression self rk
                 else (case vals self rk of None \<Rightarrow> [] | Some v \<Rightarrow> v)) read_keys,
      time_vector self)
   \<and> length (fst (read_variables self read_keys)) = length read_keys
   \<and> (\<forall>i < length read_keys.
        fst (read_variables self read_keys) ! i =
          (if is_expression (read_keys ! i) then evaluate_expression self (read_keys ! i)
           else (case vals self (read_keys ! i) of None \<Rightarrow> [] | Some v \<Rightarrow> v)))"
  by (simp add: read_variables_def read_loop_map get_or_empty_def cong: if_cong)

text \<open>The theorem of C1 at a request of three names: one missing, one literal, one with
  parentheses.\<close>

theorem read_variables_by_position_witness:
  "fst (read_variables (init\<lparr>vals := map_of [(''x'', [1, 2]), (''der(x)'', [3, 4])]\<rparr>)
        [''y'', ''x'', ''der(x)'']) = [[], [1, 2], []]"
  using read_variables_by_position
    [of "init\<lparr>vals := map_of [(''x'', [1, 2]), (''der(x)'', [3, 4])]\<rparr>" "[''y'', ''x'', ''der(x)'']"]
  by (simp add: is_expression_iff evaluate_expression_def)

text \<open>Claim C1 as stated fails: the name \<^verbatim>\<open>der(x)\<close> is in the table, and the entry returned
  for it is the empty series, not its series.\<close>

theorem read_variables_literal_first_counterexample:
  "vals (init\<lparr>vals := map_of [(''der(x)'', [3, 4])]\<rparr>) ''der(x)'' = Some [3, 4]
   \<and> fst (read_variables (init\<lparr>vals := map_of [(''der(x)'', [3, 4])]\<rparr>) [''der(x)'']) = [[]]"
  by (simp add: read_variables_def is_expression_iff evaluate_expression_def)

subsection \<open>Decoding names\<close>

lemma key_loop_takeWhile:
  "key_loop nm xx is key =
     key @ map (\<lambda>i. nm ! i ! xx)
             (takeWhile (\<lambda>i. xx < length (nm ! i) \<and> nm ! i ! xx \<noteq> CHR 0x00) is)"
  by (induction "is" arbitrary: key) (auto simp: item_at_def)

lemma butlast_map_nth: "butlast nm = map ((!) nm) [0..<length nm - 1]"
  by (rule nth_equalityI) (simp_all add: nth_butlast)

lemma key_loop_column:
  "key_loop nm xx [0..<length nm - 1] [] = column_name (butlast nm) xx"
proof -
  have "column_name (butlast nm) xx =
          map (\<lambda>row. row ! xx)
            (map ((!) nm)
               (takeWhile ((\<lambda>row. xx < length row \<and> row ! xx \<noteq> CHR 0x00) \<circ> (!) nm)
                  [0..<length nm - 1]))"
    unfolding column_name_def by (subst butlast_map_nth) (simp only: takeWhile_map)
  then show ?thesis
    by (simp add: key_loop_takeWhile comp_def)
qed

lemma keys_loop_map:
  "keys_loop nm xxs [] acc = acc @ map (\<lambda>xx. key_loop nm xx [0..<length nm - 1] []) xxs"
  by (induction xxs arbitrary: acc) simp_all

lemma parse_keys_original_eq:
  assumes "data self = Some d" and "name d = Some nm" and "nm \<noteq> []"
  shows "parse_keys_original self =
           Inr (self\<lparr>keys := map (\<lambda>xx. key_loop nm xx [0..<length nm - 1] [])
                                 [0..<length (nm ! 0) - 1]\<rparr>)"
  using assms by (simp add: parse_keys_original_def subscript_def item_at_def keys_loop_map)

text \<open>Claim C4, as the code has it. On a name matrix with at least one row, decoding
  succeeds and the name list is a function of the matrix alone (nothing of the reader's
  earlier state enters it): the name of a processed column \<open>c\<close> consists of exactly the
  characters of that column, read from row 0 upward, that precede the first null character,
  the first row too short to have a column \<open>c\<close>, and the last row of the matrix, which the
  row loop never reads.\<close>

theorem decoded_name_of_column:
  assumes "data self = Some d" and "name d = Some nm" and "nm \<noteq> []"
  shows "\<exists>self'. parse_keys_original self = Inr self'
           \<and> keys self' = map (column_name (butlast nm)) [0..<length (nm ! 0) - 1]
           \<and> (\<forall>c < length (keys self'). keys self' ! c = column_name (butlast nm) c)"
proof -
  have "map (\<lambda>xx. key_loop nm xx [0..<length nm - 1] []) [0..<length (nm ! 0) - 1]
          = map (column_name (butlast nm)) [0..<length (nm ! 0) - 1]"
    by (simp only: key_loop_column)
  then have "parse_keys_original self =
               Inr (self\<lparr>keys := map (column_name (butlast nm)) [0..<length (nm ! 0) - 1]\<rparr>)"
    using parse_keys_original_eq [OF assms] by simp
  then show ?thesis by simp
qed

text \<open>The theorem of C4 at a ragged matrix of four rows, on a reader that held another name
  list before: column 0 ends at the last row, column 1 at a null character.\<close>

theorem decoded_name_of_column_witness:
  "parse_keys_original
     (init\<lparr>data := Some \<lparr>name = Some [''abX'', ''cd'', [CHR ''e'', CHR 0x00], ''gh''],
                          dataInfo = None, data_1 = None, data_2 = None\<rparr>,
           keys := [''old'']\<rparr>)
   = Inr (init\<lparr>data := Some \<lparr>name = Some [''abX'', ''cd'', [CHR ''e'', CHR 0x00], ''gh''],
                               dataInfo = None, data_1 = None, data_2 = None\<rparr>,
                keys := [''ace'', ''bd'']\<rparr>)"
proof -
  let ?d = "\<lparr>name = Some [''abX'', ''cd'', [CHR ''e'', CHR 0x00], ''gh''],
             dataInfo = None, data_1 = None, data_2 = None\<rparr>"
  let ?r = "init\<lparr>data := Some ?d, keys := [''old'']\<rparr>"
  have a: "data ?r = Some ?d" by simp
  have b: "name ?d = Some [''abX'', ''cd'', [CHR ''e'', CHR 0x00], ''gh'']" by simp
  have c: "[''abX'', ''cd'', [CHR ''e'', CHR 0x00], ''gh''] \<noteq> []" by simp
  have u: "[0..<length ([''abX'', ''cd'', [CHR ''e'', CHR 0x00], ''gh''] ! 0) - 1] = [0, 1]"
    by (simp add: upt_rec)
  obtain self' where p: "parse_keys_original ?r = Inr self'"
    and k: "keys self' = map (column_name (butlast [''abX'', ''cd'', [CHR ''e'', CHR 0x00], ''gh'']))
              [0..<length ([''abX'', ''cd'', [CHR ''e'', CHR 0x00], ''gh''] ! 0) - 1]"
    using decoded_name_of_column [OF a b c] by blast
  have k': "keys self' = [''ace'', ''bd'']"
    unfolding k u by (simp add: column_name_def)
  have "self' = ?r\<lparr>keys := keys self'\<rparr>"
    using p by (auto simp: parse_keys_original_def split: sum.splits)
  then show ?thesis using p k' by (simp add: init_def)
qed

text \<open>Claim C4 as stated fails: column 0 of the two-row matrix \<^verbatim>\<open>ab\<close>, \<^verbatim>\<open>cd\<close> has no null
  character and no short row, its characters are \<^verbatim>\<open>ac\<close>, and the decoded name is
  \<^verbatim>\<open>a\<close>.\<close>

theorem last_row_not_read_counterexample:
  "parse_keys_original
     (init\<lparr>data := Some \<lparr>name = Some [''ab'', ''cd''], dataInfo = None,
                          data_1 = None, data_2 = None\<rparr>\<rparr>)
   = Inr (init\<lparr>data := Some \<lparr>name = Some [''ab'', ''cd''], dataInfo = None,
                               data_1 = None, data_2 = None\<rparr>,
                keys := [''a'']\<rparr>)
   \<and> column_name [''ab'', ''cd''] 0 = ''ac''"
  by (simp add: parse_keys_original_def subscript_def item_at_def column_name_def init_def)











subsection \<open>Resolving values\<close>

text \<open>What one index resolves to, when \<^verbatim>\<open>dataInfo\<close> has its two rows and the selected
  block exists: nothing for a selector other than 1 and 2, the row \<open>line - 1\<close> for a row
  index \<open>line\<close> from 1 to the number of rows, an \<^verbatim>\<open>IndexError\<close> beyond that, and for a
  row index from \<open>1 - rows\<close> to \<open>0\<close> the row counted from the end of the block.\<close>

lemma resolve_index_result:
  assumes "data self = Some d" and "dataInfo d = Some [sel_row, line_row]"
    and "index < length sel_row" and "index < length line_row"
    and "(if sel_row ! index = 1 then data_1 d else data_2 d) = Some block"
  shows "resolve_index self index =
           (if sel_row ! index \<noteq> 1 \<and> sel_row ! index \<noteq> 2 then Inr None
            else if 1 \<le> line_row ! index \<and> line_row ! index \<le> int (length block)
              then Inr (Some (block ! nat (line_row ! index - 1)))
            else if - int (length block) < line_row ! index \<and> line_row ! index \<le> 0
              then Inr (Some (block ! nat (line_row ! index - 1 + int (length block))))
            else Inl IndexError)"
  using assms
  by (auto simp: resolve_index_def subscript_def item_at_def row_at_def Let_def)

text \<open>Claim C2 says that a row index \<open>r\<close> with \<open>r - 1 < 0\<close> produces no entry. The code at
  the row index 0 on a block of two rows: the name gets the last row of the block.\<close>

theorem row_index_zero_resolves_last_row:
  "vals (parse_values_original
      (init\<lparr>data := Some \<lparr>name = None, dataInfo = Some [[2], [0]],
                           data_1 = None, data_2 = Some [[0, 1], [5, 6]]\<rparr>,
            keys := [''x'']\<rparr>)) ''x'' = Some [5, 6]"
  by (simp add: parse_values_original_def resolve_index_def subscript_def item_at_def row_at_def)

lemma values_loop_unchanged:
  "(\<forall>j < length ks. ks ! j = nm \<longrightarrow> (\<forall>row. resolve_index self (k + j) \<noteq> Inr (Some row)))
   \<Longrightarrow> values_loop self k ks tab nm = tab nm"
proof (induction ks arbitrary: k tab)
  case Nil
  then show ?case by simp
next
  case (Cons v rest)
  have rest: "\<forall>j < length rest. rest ! j = nm \<longrightarrow>
                 (\<forall>row. resolve_index self (Suc k + j) \<noteq> Inr (Some row))"
    using Cons.prems by (metis Suc_less_eq add_Suc_shift length_Cons nth_Cons_Suc)
  have here: "v = nm \<longrightarrow> (\<forall>row. resolve_index self k \<noteq> Inr (Some row))"
    using Cons.prems by (metis add.right_neutral length_Cons nth_Cons_0 zero_less_Suc)
  show ?case
    using Cons.IH [OF rest] here
    by (auto split: sum.splits option.splits)
qed

lemma values_loop_keeps:
  "i < length ks \<Longrightarrow> resolve_index self (k + i) = Inr (Some row) \<Longrightarrow>
   (\<forall>j. i < j \<and> j < length ks \<and> ks ! j = ks ! i \<longrightarrow>
        (\<forall>row'. resolve_index self (k + j) \<noteq> Inr (Some row'))) \<Longrightarrow>
   values_loop self k ks tab (ks ! i) = Some row"
proof (induction ks arbitrary: k i tab)
  case Nil
  then show ?case by simp
next
  case (Cons v rest)
  show ?case
  proof (cases i)
    case 0
    have later: "\<forall>j < length rest. rest ! j = v \<longrightarrow>
                   (\<forall>row'. resolve_index self (Suc k + j) \<noteq> Inr (Some row'))"
    proof (intro allI impI)
      fix j row'
      assume j: "j < length rest" and e: "rest ! j = v"
      have "resolve_index self (k + Suc j) \<noteq> Inr (Some row')"
        using Cons.prems(3) 0 j e by auto
      then show "resolve_index self (Suc k + j) \<noteq> Inr (Some row')" by simp
    qed
    show ?thesis
      using Cons.prems(2) 0 values_loop_unchanged [OF later, of "tab(v \<mapsto> row)"]
      by simp
  next
    case (Suc i')
    have a: "i' < length rest" using Cons.prems(1) Suc by simp
    have b: "resolve_index self (Suc k + i') = Inr (Some row)"
      using Cons.prems(2) Suc by simp
    have c: "\<forall>j. i' < j \<and> j < length rest \<and> rest ! j = rest ! i' \<longrightarrow>
                (\<forall>row'. resolve_index self (Suc k + j) \<noteq> Inr (Some row'))"
    proof (intro allI impI)
      fix j row'
      assume h: "i' < j \<and> j < length rest \<and> rest ! j = rest ! i'"
      have "resolve_index self (k + Suc j) \<noteq> Inr (Some row')"
        using Cons.prems(3) Suc h by auto
      then show "resolve_index self (Suc k + j) \<noteq> Inr (Some row')" by simp
    qed
    have "values_loop self (Suc k) rest tab' (rest ! i') = Some row" for tab'
      using Cons.IH [OF a b c] .
    then show ?thesis
      using Suc by (auto split: sum.splits option.splits)
  qed
qed

text \<open>Claim C10. If index \<open>i\<close> resolves to a row and every later index that carries the
  same name fails (the selector is neither 1 nor 2, or the lookup raises), the resolved table
  holds the row of index \<open>i\<close> under that name: a failure never removes or overwrites an
  entry, and the last write that wins is the last successful one.\<close>

theorem failed_index_keeps_earlier_series:
  assumes "i < length (keys self)"
    and "resolve_index self i = Inr (Some row)"
    and "\<forall>j. i < j \<and> j < length (keys self) \<and> keys self ! j = keys self ! i \<longrightarrow>
           (\<forall>row'. resolve_index self j \<noteq> Inr (Some row'))"
  shows "vals (parse_values_original self) (keys self ! i) = Some row"
  using values_loop_keeps [of i "keys self" self 0 row Map.empty] assms
  by (simp add: parse_values_original_def)

text \<open>The theorem of C10 at two indices with the name \<^verbatim>\<open>x\<close>: the first selects row 1 of
  block 2, the second has the selector 3.\<close>

theorem failed_index_keeps_earlier_series_witness:
  "vals (parse_values_original
      (init\<lparr>data := Some \<lparr>name = None, dataInfo = Some [[2, 3], [1, 1]],
                           data_1 = None, data_2 = Some [[0, 1]]\<rparr>,
            keys := [''x'', ''x'']\<rparr>)) ''x'' = Some [0, 1]"
proof -
  let ?r = "init\<lparr>data := Some \<lparr>name = None, dataInfo = Some [[2, 3], [1, 1]],
                                 data_1 = None, data_2 = Some [[0, 1]]\<rparr>,
                  keys := [''x'', ''x'']\<rparr>"
  have a: "0 < length (keys ?r)" by simp
  have b: "resolve_index ?r 0 = Inr (Some [0, 1])"
    by (simp add: resolve_index_def subscript_def item_at_def row_at_def)
  have one: "resolve_index ?r 1 = Inr None"
    by (simp add: resolve_index_def subscript_def item_at_def row_at_def)
  have c: "\<forall>j. 0 < j \<and> j < length (keys ?r) \<and> keys ?r ! j = keys ?r ! 0 \<longrightarrow>
             (\<forall>row'. resolve_index ?r j \<noteq> Inr (Some row'))"
  proof (intro allI impI)
    fix j row'
    assume "0 < j \<and> j < length (keys ?r) \<and> keys ?r ! j = keys ?r ! 0"
    then have "j = 1" by simp
    then show "resolve_index ?r j \<noteq> Inr (Some row')" using one by simp
  qed
  show ?thesis
    using failed_index_keeps_earlier_series [OF a b c] by simp
qed

subsection \<open>Loading\<close>




subsection \<open>Classification\<close>

lemma classify_step_eq:
  "classify_step key cats = cats(classify key := cats (classify key) @ [key])"
  by (simp add: classify_step_def classify_def rule_table_def Let_def any_in_def)

lemma fold_classify_step:
  "fold classify_step ks cats c = cats c @ filter (\<lambda>k. classify k = c) ks"
  by (induction ks arbitrary: cats) (auto simp: classify_step_eq)

lemma classify_setpoint: "classify ''setpoint_fault'' = Control"
  by code_simp

lemma classify_bus: "classify ''busVoltage'' = Electrical"
  by code_simp

text \<open>Claim C6. The list of each category is the sublist, in input order, of the names
  whose first matching rule in the priority order time, electrical, thermal, mechanical,
  control, fault (else other) carries that category; so every name of the input is in the
  list of exactly one of the seven categories. \<^verbatim>\<open>setpoint_fault\<close> is classified control and
  \<^verbatim>\<open>busVoltage\<close> electrical.\<close>

theorem classification_first_match:
  "get_variable_categories self c = filter (\<lambda>k. classify k = c) (keys self)
   \<and> (\<forall>k \<in> set (keys self). \<exists>!c'. k \<in> set (get_variable_categories self c'))
   \<and> classify ''setpoint_fault'' = Control
   \<and> classify ''busVoltage'' = Electrical"
proof -
  have 1: "get_variable_categories self c' = filter (\<lambda>k. classify k = c') (keys self)" for c'
    by (simp add: get_variable_categories_def fold_classify_step)
  have 2: "\<exists>!c'. k \<in> set (get_variable_categories self c')" if "k \<in> set (keys self)" for k
    using that by (auto simp: 1)
  show ?thesis using 1 2 classify_setpoint classify_bus by blast
qed

text \<open>The theorem of C6 at the two names of the claim.\<close>

theorem classification_first_match_witness:
  "get_variable_categories (init\<lparr>keys := [''setpoint_fault'', ''busVoltage'']\<rparr>) Control
     = [''setpoint_fault'']
   \<and> get_variable_categories (init\<lparr>keys := [''setpoint_fault'', ''busVoltage'']\<rparr>) Fault = []"
  using classification_first_match [of "init\<lparr>keys := [''setpoint_fault'', ''busVoltage'']\<rparr>" Control]
    classification_first_match [of "init\<lparr>keys := [''setpoint_fault'', ''busVoltage'']\<rparr>" Fault]
  by simp

subsection \<open>Statistics\<close>

lemma np_min_Min: "a \<noteq> [] \<Longrightarrow> np_min a = Min (set a)"
proof -
  assume "a \<noteq> []"
  then have "hd a # tl a = a" by simp
  then have "Min (set a) = fold min (tl a) (hd a)"
    using Min.set_eq_fold [of "hd a" "tl a"] by (simp only:)
  then show ?thesis by (simp add: np_min_def)
qed

lemma np_max_Max: "a \<noteq> [] \<Longrightarrow> np_max a = Max (set a)"
proof -
  assume "a \<noteq> []"
  then have "hd a # tl a = a" by simp
  then have "Max (set a) = fold max (tl a) (hd a)"
    using Max.set_eq_fold [of "hd a" "tl a"] by (simp only:)
  then show ?thesis by (simp add: np_max_def)
qed

text \<open>Claim C8. \<^verbatim>\<open>get_variable_stats\<close> returns nothing exactly when the variable is not in
  the resolved table or its series is empty. Otherwise it returns the minimum, the maximum,
  the arithmetic mean, the population standard deviation (the sum of squared deviations is
  divided by the count) and the count of the whole series. For the series
  \<open>[2,4,4,4,5,5,7,9]\<close> these are 2, 9, 5, 2 and 8.\<close>

theorem variable_stats:
  "(get_variable_stats self v = None) = (vals self v = None \<or> vals self v = Some [])
   \<and> (\<forall>a. vals self v = Some a \<and> a \<noteq> [] \<longrightarrow>
         get_variable_stats self v =
           Some \<lparr>min_v = Min (set a), max_v = Max (set a),
                 mean = sum_list a / real (length a),
                 std = sqrt (sum_list (map (\<lambda>x. (x - sum_list a / real (length a)) ^ 2) a)
                             / real (length a)),
                 size_v = length a\<rparr>)
   \<and> (vals self v = Some [2, 4, 4, 4, 5, 5, 7, 9] \<longrightarrow>
         get_variable_stats self v =
           Some \<lparr>min_v = 2, max_v = 9, mean = 5, std = 2, size_v = 8\<rparr>)"
proof -
  have 1: "(get_variable_stats self v = None) = (vals self v = None \<or> vals self v = Some [])"
    by (simp add: get_variable_stats_def split: option.splits)
  have 2: "get_variable_stats self v =
           Some \<lparr>min_v = Min (set a), max_v = Max (set a),
                 mean = sum_list a / real (length a),
                 std = sqrt (sum_list (map (\<lambda>x. (x - sum_list a / real (length a)) ^ 2) a)
                             / real (length a)),
                 size_v = length a\<rparr>"
    if "vals self v = Some a \<and> a \<noteq> []" for a
    using that
    by (simp add: get_variable_stats_def np_min_Min np_max_Max np_mean_def np_std_def)
  have 3: "get_variable_stats self v =
           Some \<lparr>min_v = 2, max_v = 9, mean = 5, std = 2, size_v = 8\<rparr>"
    if "vals self v = Some [2, 4, 4, 4, 5, 5, 7, 9]"
    using that
    by (simp add: get_variable_stats_def np_min_def np_max_def np_mean_def np_std_def)
  show ?thesis using 1 2 3 by blast
qed

text \<open>The theorem of C8 at a table with the series of the claim, an empty series and a
  missing name.\<close>

theorem variable_stats_witness:
  "get_variable_stats (init\<lparr>vals := map_of [(''x'', [2, 4, 4, 4, 5, 5, 7, 9]), (''e'', [])]\<rparr>) ''x''
     = Some \<lparr>min_v = 2, max_v = 9, mean = 5, std = 2, size_v = 8\<rparr>
   \<and> get_variable_stats (init\<lparr>vals := map_of [(''x'', [2, 4, 4, 4, 5, 5, 7, 9]), (''e'', [])]\<rparr>) ''e''
     = None
   \<and> get_variable_stats (init\<lparr>vals := map_of [(''x'', [2, 4, 4, 4, 5, 5, 7, 9]), (''e'', [])]\<rparr>) ''y''
     = None"
  using variable_stats [of "init\<lparr>vals := map_of [(''x'', [2, 4, 4, 4, 5, 5, 7, 9]), (''e'', [])]\<rparr>" "''x''"]
    variable_stats [of "init\<lparr>vals := map_of [(''x'', [2, 4, 4, 4, 5, 5, 7, 9]), (''e'', [])]\<rparr>" "''e''"]
    variable_stats [of "init\<lparr>vals := map_of [(''x'', [2, 4, 4, 4, 5, 5, 7, 9]), (''e'', [])]\<rparr>" "''y''"]
  by simp

end
